theory Spec2Isabelle
  imports Complex_Main
begin

section \<open>Geometry primitives used by the inset engine\<close>

text \<open>
  The source computes with \<^verbatim>\<open>Scalar\<close> (a C++ \<^verbatim>\<open>double\<close>).  The embedding uses the
  real numbers: rounding is not modelled, and the IEEE special values (infinity and NaN,
  produced by a division by zero) have no counterpart.  Wherever a statement below
  depends on a division, it is made for arguments where the divisor is not zero, or it
  only uses that the result is not a unit vector.
\<close>

type_synonym Scalar = real

record Vector3 =
  x :: Scalar
  y :: Scalar
  z :: Scalar

record Vector2 =
  x :: Scalar
  y :: Scalar

record TriangleSegment2 =
  a :: Vector2
  b :: Vector2

text \<open>
  Modelled from the spec: the vector operations of the external geometry library
  (\<^verbatim>\<open>Vector2::operator+\<close>, \<^verbatim>\<open>operator-\<close>, \<^verbatim>\<open>operator*=\<close>, \<^verbatim>\<open>magnitude\<close>,
  \<^verbatim>\<open>normalise\<close>), which the spec lists as "vector add/scale/normalize/cross" and which
  are not part of \<^verbatim>\<open>shrinky.cc\<close>.
\<close>

definition Vector2_add :: "Vector2 \<Rightarrow> Vector2 \<Rightarrow> Vector2" where
  "Vector2_add u v = \<lparr>x = x u + x v, y = y u + y v\<rparr>"

definition Vector2_sub :: "Vector2 \<Rightarrow> Vector2 \<Rightarrow> Vector2" where
  "Vector2_sub u v = \<lparr>x = x u - x v, y = y u - y v\<rparr>"

definition Vector2_scale :: "Vector2 \<Rightarrow> Scalar \<Rightarrow> Vector2" where
  "Vector2_scale v s = \<lparr>x = x v * s, y = y v * s\<rparr>"

definition magnitude :: "Vector2 \<Rightarrow> Scalar" where
  "magnitude v = sqrt (x v * x v + y v * y v)"

text \<open>
  Modelled from the spec: \<^verbatim>\<open>Vector2::normalise\<close> scales the vector by the inverse of
  its magnitude.  On the zero vector the C++ computes \<^verbatim>\<open>1.0/0\<close> and then \<^verbatim>\<open>0*inf\<close>, a
  NaN in both coordinates; in HOL \<open>1 / 0 = 0\<close> and the result is the zero vector.  In
  both readings the result is not a unit vector.
\<close>

definition normalise :: "Vector2 \<Rightarrow> Vector2" where
  "normalise v = (let inverseMag = 1 / magnitude v in Vector2_scale v inverseMag)"

text \<open>
  Modelled from the spec: \<^verbatim>\<open>Vector3::crossProduct\<close> and \<^verbatim>\<open>Vector3::normalise\<close> of the
  external geometry library.
\<close>

definition crossProduct :: "Vector3 \<Rightarrow> Vector3 \<Rightarrow> Vector3" where
  "crossProduct u v =
     \<lparr>Vector3.x = Vector3.y u * z v - z u * Vector3.y v,
      Vector3.y = z u * Vector3.x v - Vector3.x u * z v,
      z = Vector3.x u * Vector3.y v - Vector3.y u * Vector3.x v\<rparr>"

definition magnitude3 :: "Vector3 \<Rightarrow> Scalar" where
  "magnitude3 v = sqrt (Vector3.x v * Vector3.x v + Vector3.y v * Vector3.y v + z v * z v)"

definition normalise3 :: "Vector3 \<Rightarrow> Vector3" where
  "normalise3 v =
     (let inverseMag = 1 / magnitude3 v
      in \<lparr>Vector3.x = Vector3.x v * inverseMag, Vector3.y = Vector3.y v * inverseMag,
          z = z v * inverseMag\<rparr>)"

text \<open>
  Modelled from the spec: \<^verbatim>\<open>same_same(other, eps)\<close>, the tolerant coincidence test of
  the external geometry library: both coordinate differences are smaller than the
  tolerance in absolute value.
\<close>

definition sameSame :: "Vector2 \<Rightarrow> Vector2 \<Rightarrow> Scalar \<Rightarrow> bool" where
  "sameSame v p tol = (\<bar>x p - x v\<bar> < tol \<and> \<bar>y p - y v\<bar> < tol)"

text \<open>
  Modelled from the spec: \<^verbatim>\<open>length\<close> and \<^verbatim>\<open>squared_length\<close> of a segment.
\<close>

definition squaredLength :: "TriangleSegment2 \<Rightarrow> Scalar" where
  "squaredLength s =
     (x (b s) - x (a s)) * (x (b s) - x (a s)) + (y (b s) - y (a s)) * (y (b s) - y (a s))"

definition TriangleSegment2_length :: "TriangleSegment2 \<Rightarrow> Scalar" where
  "TriangleSegment2_length s = sqrt (squaredLength s)"

text \<open>
  Modelled from the spec: "segment-segment intersection returning an optional point".
  The two closed segments are intersected through the parameters of their supporting
  lines; parallel supporting lines (a zero denominator) give no intersection.
\<close>

definition segmentSegmentIntersection ::
  "TriangleSegment2 \<Rightarrow> TriangleSegment2 \<Rightarrow> Vector2 option" where
  "segmentSegmentIntersection s1 s2 =
     (let s1_x = x (b s1) - x (a s1); s1_y = y (b s1) - y (a s1);
          s2_x = x (b s2) - x (a s2); s2_y = y (b s2) - y (a s2);
          den = - s2_x * s1_y + s1_x * s2_y
      in if den = 0 then None
         else let s = (- s1_y * (x (a s1) - x (a s2)) + s1_x * (y (a s1) - y (a s2))) / den;
                  t = (s2_x * (y (a s1) - y (a s2)) - s2_y * (x (a s1) - x (a s2))) / den
              in if 0 \<le> s \<and> s \<le> 1 \<and> 0 \<le> t \<and> t \<le> 1
                 then Some \<lparr>x = x (a s1) + t * s1_x, y = y (a s1) + t * s1_y\<rparr>
                 else None)"

section \<open>The inset engine of \<^verbatim>\<open>shrinky.cc\<close>\<close>

text \<open>
  The failures of the engine: a failed \<^verbatim>\<open>assert\<close>, and the two \<^verbatim>\<open>ShrinkyMess\<close>
  exceptions, told apart by their messages ("n line segment is not enough to create a
  closed polygon" and "This is not a closed polygon").
\<close>

datatype failure = AssertionFailed | TooFewSegments nat | OpenPolygon

subsection \<open>Orientation\<close>

text \<open>
  Twice the signed area of a triple of points, and the convexity test that the file
  builds on it: a vertex is convex when the triple (start of the previous segment,
  vertex, end of the next segment) turns clockwise.
\<close>

definition AreaSign :: "Vector2 \<Rightarrow> Vector2 \<Rightarrow> Vector2 \<Rightarrow> Scalar" where
  "AreaSign p q r = (x q - x p) * (y r - y p) - (x r - x p) * (y q - y p)"

definition convexVertex :: "Vector2 \<Rightarrow> Vector2 \<Rightarrow> Vector2 \<Rightarrow> bool" where
  "convexVertex i j k = (AreaSign i j k < 0)"

subsection \<open>Inset direction and raw insets\<close>

definition getInsetDirection :: "TriangleSegment2 \<Rightarrow> Vector2" where
  "getInsetDirection seg =
     (let v = \<lparr>Vector3.x = x (b seg) - x (a seg), Vector3.y = y (b seg) - y (a seg), z = 0\<rparr>;
          up = \<lparr>Vector3.x = 0, Vector3.y = 0, z = 1\<rparr>;
          inset = normalise3 (crossProduct v up)
      in \<lparr>x = Vector3.x inset, y = Vector3.y inset\<rparr>)"

text \<open>
  \<^verbatim>\<open>insetSegments\<close> walks the input and pushes one translated copy per segment.  Its
  output vector is asserted empty on entry, so the result is returned.
\<close>

fun insetSegmentsLoop ::
  "TriangleSegment2 list \<Rightarrow> Scalar \<Rightarrow> TriangleSegment2 list \<Rightarrow> TriangleSegment2 list" where
  "insetSegmentsLoop [] d insets = insets"
| "insetSegmentsLoop (seg # rest) d insets =
     (let inset = Vector2_scale (getInsetDirection seg) d;
          newSeg = seg\<lparr>a := Vector2_add (a seg) inset, b := Vector2_add (b seg) inset\<rparr>
      in insetSegmentsLoop rest d (insets @ [newSeg]))"

definition insetSegments :: "TriangleSegment2 list \<Rightarrow> Scalar \<Rightarrow> TriangleSegment2 list" where
  "insetSegments segments d = insetSegmentsLoop segments d []"

subsection \<open>Elongation and trimming\<close>

definition elongate :: "TriangleSegment2 \<Rightarrow> Scalar \<Rightarrow> bool \<Rightarrow> bool \<Rightarrow> TriangleSegment2" where
  "elongate s dst fromStart fromEnd =
     (let l = Vector2_scale (normalise (Vector2_sub (b s) (a s))) dst;
          segment = (if fromEnd then s\<lparr>b := Vector2_add (b s) l\<rparr> else s)
      in if fromStart then segment\<lparr>a := Vector2_sub (a segment) l\<rparr> else segment)"

text \<open>
  \<^verbatim>\<open>attachSegments\<close> takes both segments by reference; the model returns the flag and
  the two segments as they are left.
\<close>

definition attachSegments ::
  "TriangleSegment2 \<Rightarrow> TriangleSegment2 \<Rightarrow> Scalar \<Rightarrow> bool \<times> TriangleSegment2 \<times> TriangleSegment2" where
  "attachSegments first next elongation =
     (case segmentSegmentIntersection (elongate first elongation False True)
                                      (elongate next elongation True False) of
        Some intersection \<Rightarrow> (True, first\<lparr>b := intersection\<rparr>, next\<lparr>a := intersection\<rparr>)
      | None \<Rightarrow> (False, first, next))"

text \<open>
  One iteration of the loop of \<^verbatim>\<open>elongateAndTrimSegments\<close>: \<^verbatim>\<open>attachSegments\<close> is
  called on references to \<^verbatim>\<open>segments[prevId]\<close> and \<^verbatim>\<open>segments[i]\<close>.  With a single
  segment both references name the same element, which then receives both writes.
\<close>

definition attachAt ::
  "TriangleSegment2 list \<Rightarrow> nat \<Rightarrow> nat \<Rightarrow> Scalar \<Rightarrow> TriangleSegment2 list" where
  "attachAt segments prevId i elongation =
     (case attachSegments (segments ! prevId) (segments ! i) elongation of
        (trimmed, previousSegment, currentSegment) \<Rightarrow>
          if prevId = i
          then segments[i := \<lparr>a = a currentSegment, b = b previousSegment\<rparr>]
          else segments[prevId := previousSegment, i := currentSegment])"

text \<open>
  The loop \<^verbatim>\<open>for (i = 0; i < segments.size(); i++)\<close>: the third argument counts the
  iterations that remain, the fourth is \<^verbatim>\<open>i\<close>.
\<close>

fun elongateAndTrimLoop ::
  "TriangleSegment2 list \<Rightarrow> Scalar \<Rightarrow> nat \<Rightarrow> nat \<Rightarrow> TriangleSegment2 list" where
  "elongateAndTrimLoop segments elongation 0 i = segments"
| "elongateAndTrimLoop segments elongation (Suc k) i =
     (let prevId = (if i = 0 then length segments - 1 else i - 1)
      in elongateAndTrimLoop (attachAt segments prevId i elongation) elongation k (i + 1))"

definition elongateAndTrimSegments ::
  "TriangleSegment2 list \<Rightarrow> Scalar \<Rightarrow> TriangleSegment2 list" where
  "elongateAndTrimSegments longSegments elongation =
     elongateAndTrimLoop longSegments elongation (length longSegments) 0"

subsection \<open>Bisectors and collapse removal\<close>

definition triangleAltitude :: "Scalar \<Rightarrow> Scalar \<Rightarrow> Scalar \<Rightarrow> Scalar" where
  "triangleAltitude la lb lc =
     (let s = 0.5 * (la + lb + lc)
      in 2 * sqrt (s * (s - la) * (s - lb) * (s - lc)) / la)"

text \<open>
  \<^verbatim>\<open>edgeCollapse\<close> returns the flag; its output parameter \<^verbatim>\<open>collapseDistance\<close> is
  written only when the two bisector segments could be attached, and is returned as
  an option.
\<close>

definition edgeCollapse ::
  "TriangleSegment2 \<Rightarrow> Vector2 \<Rightarrow> Vector2 \<Rightarrow> Scalar \<Rightarrow> Scalar \<Rightarrow> bool \<times> Scalar option" where
  "edgeCollapse segment bisector0 bisector1 insetDistance elongation =
     (let bisectorSegment0 = \<lparr>a = a segment, b = Vector2_add (a segment) bisector0\<rparr>;
          bisectorSegment1 = \<lparr>a = b segment, b = Vector2_add (b segment) bisector1\<rparr>
      in case attachSegments bisectorSegment0 bisectorSegment1 elongation of
           (attached, bisectorSegment0, bisectorSegment1) \<Rightarrow>
             if attached
             then let intersection = b bisectorSegment0;
                      edge0 = Vector2_sub (a segment) intersection;
                      edge1 = Vector2_sub (b segment) intersection;
                      collapseDistance =
                        triangleAltitude (TriangleSegment2_length segment)
                                         (magnitude edge0) (magnitude edge1)
                  in (collapseDistance < insetDistance, Some collapseDistance)
             else (False, None))"

text \<open>
  The loop of \<^verbatim>\<open>removeCollapsedSegments\<close> with its three running indices.  The fourth
  argument counts the iterations that remain.  The source reads both vectors without a
  range check; the indices stay below the number of segments when there are at least
  two segments and as many bisectors, which is how the inset call uses the function.
\<close>

fun removeCollapsedLoop ::
  "TriangleSegment2 list \<Rightarrow> Vector2 list \<Rightarrow> Scalar \<Rightarrow> nat \<Rightarrow> nat \<Rightarrow> nat \<Rightarrow> nat \<Rightarrow>
   TriangleSegment2 list \<Rightarrow> TriangleSegment2 list" where
  "removeCollapsedLoop segments bisectors insetDist 0 prevBisector currId nextBisector
     relevantSegments = relevantSegments"
| "removeCollapsedLoop segments bisectors insetDist (Suc k) prevBisector currId nextBisector
     relevantSegments =
     (let elongation = 100;
          currentSegment = segments ! currId;
          collapsed = fst (edgeCollapse currentSegment (bisectors ! prevBisector)
                             (bisectors ! nextBisector) insetDist elongation);
          currId' = (if currId = length segments - 1 then 0 else currId + 1);
          nextBisector' = (if nextBisector = length segments - 1 then 0 else nextBisector + 1)
      in if collapsed
         then removeCollapsedLoop segments bisectors insetDist k prevBisector currId'
                nextBisector' relevantSegments
         else removeCollapsedLoop segments bisectors insetDist k
                (if prevBisector = length segments - 1 then 0 else prevBisector + 1) currId'
                nextBisector' (relevantSegments @ [currentSegment]))"

definition removeCollapsedSegments ::
  "TriangleSegment2 list \<Rightarrow> Vector2 list \<Rightarrow> Scalar \<Rightarrow> TriangleSegment2 list" where
  "removeCollapsedSegments segments bisectors insetDist =
     removeCollapsedLoop segments bisectors insetDist (length segments)
       (length segments - 1) 0 1 []"

text \<open>
  \<^verbatim>\<open>createBisectors\<close>: the third argument of the loop counts the iterations that
  remain, the fourth is \<^verbatim>\<open>i\<close>.  The first pair of segments that is not adjacent within
  the tolerance throws.
\<close>

fun createBisectorsLoop ::
  "TriangleSegment2 list \<Rightarrow> Scalar \<Rightarrow> nat \<Rightarrow> nat \<Rightarrow> Vector2 list \<Rightarrow> failure + Vector2 list" where
  "createBisectorsLoop segments tol 0 i motorCycles = Inr motorCycles"
| "createBisectorsLoop segments tol (Suc k) i motorCycles =
     (let prevId = (if i = 0 then length segments - 1 else i - 1);
          prevSeg = segments ! prevId;
          seg = segments ! i;
          prevInset = getInsetDirection prevSeg;
          inset = getInsetDirection seg
      in if sameSame (b prevSeg) (a seg) tol
         then createBisectorsLoop segments tol k (i + 1)
                (motorCycles @ [normalise (Vector2_add inset prevInset)])
         else Inl OpenPolygon)"

definition createBisectors ::
  "TriangleSegment2 list \<Rightarrow> Scalar \<Rightarrow> Vector2 list \<Rightarrow> failure + Vector2 list" where
  "createBisectors segments tol motorCycles =
     createBisectorsLoop segments tol (length segments) 0 motorCycles"

subsection \<open>Short segments\<close>

function removeShortLoop ::
  "TriangleSegment2 list \<Rightarrow> Scalar \<Rightarrow> nat \<Rightarrow> TriangleSegment2 list \<Rightarrow> TriangleSegment2 list" where
  "removeShortLoop segments cutoffLength2 i shorts =
     (if i < length segments
      then let nextId = (if i = length segments - 1 then 0 else i + 1);
               seg = segments ! i;
               nextSeg = segments ! nextId;
               length2 = squaredLength nextSeg
           in if length2 < cutoffLength2
              then removeShortLoop segments cutoffLength2 (i + 1 + 1)
                     (shorts @ [seg\<lparr>b := b nextSeg\<rparr>])
              else removeShortLoop segments cutoffLength2 (i + 1) (shorts @ [seg])
      else shorts)"
  by pat_completeness auto
termination
  by (relation "measure (\<lambda>(segments, c, i, shorts). length segments - i)") auto

declare removeShortLoop.simps [simp del]

definition removeShortSegments ::
  "TriangleSegment2 list \<Rightarrow> Scalar \<Rightarrow> TriangleSegment2 list \<Rightarrow>
   failure + TriangleSegment2 list" where
  "removeShortSegments segments cutoffLength shorts =
     (if \<not> cutoffLength > 0 then Inl AssertionFailed
      else let cutoffLength2 = cutoffLength * cutoffLength
           in Inr (removeShortLoop segments cutoffLength2 0 shorts))"

subsection \<open>The inset call\<close>

text \<open>
  \<^verbatim>\<open>Shrinky::inset\<close>.  The output vector \<^verbatim>\<open>finalInsets\<close> is asserted empty on
  entry and is returned.  The diagnostic printing and the OpenSCAD dump do not touch
  the result and are left out.
\<close>

definition inset ::
  "TriangleSegment2 list \<Rightarrow> Scalar \<Rightarrow> Scalar \<Rightarrow> failure + TriangleSegment2 list" where
  "inset originalSegments insetDist cutoffLength =
     (if \<not> length originalSegments > 0 then Inl AssertionFailed
      else let segmentCount = length originalSegments
           in if segmentCount < 2 then Inl (TooFewSegments segmentCount)
              else case createBisectors originalSegments cutoffLength [] of
                     Inl mixup \<Rightarrow> Inl mixup
                   | Inr bisectors \<Rightarrow>
                       (let relevantSegments =
                              removeCollapsedSegments originalSegments bisectors insetDist
                        in if length relevantSegments > 0
                           then let insets = insetSegments relevantSegments insetDist;
                                    elongation = insetDist * 100
                                in Inr (elongateAndTrimSegments insets elongation)
                           else Inr []))"

subsection \<open>Adjacency, and the bisector of a vertex\<close>

text \<open>
  The index of the previous segment, \<^verbatim>\<open>i==0 ? segments.size()-1 : i-1\<close>; the adjacency
  test that \<^verbatim>\<open>createBisectors\<close> makes at index \<open>i\<close>; and the vector it pushes there.
\<close>

definition prevIndex :: "nat \<Rightarrow> nat \<Rightarrow> nat" where
  "prevIndex n i = (if i = 0 then n - 1 else i - 1)"

definition adjacentAt :: "TriangleSegment2 list \<Rightarrow> Scalar \<Rightarrow> nat \<Rightarrow> bool" where
  "adjacentAt segments tol i =
     sameSame (b (segments ! prevIndex (length segments) i)) (a (segments ! i)) tol"

definition closedPolygon :: "TriangleSegment2 list \<Rightarrow> Scalar \<Rightarrow> bool" where
  "closedPolygon segments tol = list_all (adjacentAt segments tol) [0..<length segments]"

definition bisectorAt :: "TriangleSegment2 list \<Rightarrow> nat \<Rightarrow> Vector2" where
  "bisectorAt segments i =
     normalise (Vector2_add (getInsetDirection (segments ! i))
                            (getInsetDirection (segments ! prevIndex (length segments) i)))"

definition bisectorsOf :: "TriangleSegment2 list \<Rightarrow> Vector2 list" where
  "bisectorsOf segments = map (bisectorAt segments) [0..<length segments]"

text \<open>
  A vertex is degenerate when one of its two segments has length zero, or when the
  inset directions of its two segments cancel (the polygon turns back on itself).
  These are the vertices where the normalisations divide by zero.
\<close>

definition degenerateAt :: "TriangleSegment2 list \<Rightarrow> nat \<Rightarrow> bool" where
  "degenerateAt segments i =
     (let seg = segments ! i; prevSeg = segments ! prevIndex (length segments) i
      in squaredLength seg = 0 \<or> squaredLength prevSeg = 0 \<or>
         magnitude (Vector2_add (getInsetDirection seg) (getInsetDirection prevSeg)) = 0)"

definition nondegenerate :: "TriangleSegment2 list \<Rightarrow> bool" where
  "nondegenerate segments =
     list_all (\<lambda>i. \<not> degenerateAt segments i) [0..<length segments]"

text \<open>
  The inset direction in the words of the specification:
  \<^verbatim>\<open>normalize(cross(s.b - s.a, +z)).xy\<close>.
\<close>

definition spec_inset_direction :: "TriangleSegment2 \<Rightarrow> Vector2" where
  "spec_inset_direction s =
     (let d = Vector2_sub (b s) (a s);
          n = normalise3 (crossProduct \<lparr>Vector3.x = x d, Vector3.y = y d, z = 0\<rparr>
                                       \<lparr>Vector3.x = 0, Vector3.y = 0, z = 1\<rparr>)
      in \<lparr>x = Vector3.x n, y = Vector3.y n\<rparr>)"

definition translate :: "TriangleSegment2 \<Rightarrow> Vector2 \<Rightarrow> TriangleSegment2" where
  "translate s v = \<lparr>a = Vector2_add (a s) v, b = Vector2_add (b s) v\<rparr>"

subsection \<open>Concrete inputs\<close>

text \<open>The constructor \<^verbatim>\<open>TriangleSegment2(Vector2(x0, y0), Vector2(x1, y1))\<close>.\<close>

definition segment :: "Scalar \<Rightarrow> Scalar \<Rightarrow> Scalar \<Rightarrow> Scalar \<Rightarrow> TriangleSegment2" where
  "segment x0 y0 x1 y1 = \<lparr>a = \<lparr>x = x0, y = y0\<rparr>, b = \<lparr>x = x1, y = y1\<rparr>\<rparr>"

text \<open>The square of scenario S1, as given (counter-clockwise), and traversed clockwise.\<close>

definition squareCCW :: "TriangleSegment2 list" where
  "squareCCW = [segment 0 0 10 0, segment 10 0 10 10, segment 10 10 0 10, segment 0 10 0 0]"

definition squareCW :: "TriangleSegment2 list" where
  "squareCW = [segment 0 0 0 10, segment 0 10 10 10, segment 10 10 10 0, segment 10 0 0 0]"

text \<open>The equilateral triangle of side 2 of scenario S2, in both orientations.\<close>

definition triangleCCW :: "TriangleSegment2 list" where
  "triangleCCW = [segment 0 0 2 0, segment 2 0 1 (sqrt 3), segment 1 (sqrt 3) 0 0]"

definition triangleCW :: "TriangleSegment2 list" where
  "triangleCW = [segment 0 0 1 (sqrt 3), segment 1 (sqrt 3) 2 0, segment 2 0 0 0]"

text \<open>A closed polygon of two segments, there and back.\<close>

definition spike :: "TriangleSegment2 list" where
  "spike = [segment 0 0 1 0, segment 1 0 0 0]"

section \<open>The containment tree\<close>

type_synonym Point2Type = Vector2

type_synonym Loop = "Point2Type list"

text \<open>
  The data members of \<^verbatim>\<open>ContainmentTree<T>\<close>: \<^verbatim>\<open>m_loop\<close>, \<^verbatim>\<open>m_children\<close> and
  \<^verbatim>\<open>m_value\<close>.
\<close>

datatype 'v ContainmentTree =
  ContainmentTree (m_loop: Loop) (m_children: "'v ContainmentTree list") (m_value: 'v)

text \<open>
  Modelled from the spec: \<^verbatim>\<open>ContainmentTree::isValid\<close> is only declared in
  \<^verbatim>\<open>ContainmentTree_decl.h\<close>.  A root is constructed without a loop, a normal tree
  from "a valid non-empty loop"; \<^verbatim>\<open>isValid\<close> is "true for normal tree, false for
  roots".
\<close>

definition isValid :: "'v ContainmentTree \<Rightarrow> bool" where
  "isValid t = (m_loop t \<noteq> [])"

text \<open>
  Modelled from the spec: \<^verbatim>\<open>ContainmentTree::contains(other)\<close> is only declared in
  \<^verbatim>\<open>ContainmentTree_decl.h\<close>; its body is not among the sources.  "Roots return true
  for all normal trees, false for other roots.  Normal trees use winding test for
  other normal trees, false for roots."  The winding test of the loop class is a
  parameter; the point of the other loop that is tested is its first point.
\<close>

definition contains ::
  "(Loop \<Rightarrow> Point2Type \<Rightarrow> bool) \<Rightarrow> 'v ContainmentTree \<Rightarrow> 'v ContainmentTree \<Rightarrow> bool" where
  "contains windingContains t other =
     (if \<not> isValid t then isValid other
      else if \<not> isValid other then False
      else windingContains (m_loop t) (hd (m_loop other)))"

text \<open>
  Modelled from the spec: the winding test of a loop, "point-in-polygon classification
  by summing signed angle or by ray-crossing parity".  This is the ray-crossing parity
  test over the edges of the loop, the last one closing it.
\<close>

definition crossesRay :: "Point2Type \<Rightarrow> Point2Type \<times> Point2Type \<Rightarrow> bool" where
  "crossesRay p e =
     (case e of (u, v) \<Rightarrow>
        ((y p < y u) \<noteq> (y p < y v)) \<and>
        x p < (x v - x u) * (y p - y u) / (y v - y u) + x u)"

definition windingContains :: "Loop \<Rightarrow> Point2Type \<Rightarrow> bool" where
  "windingContains loop p = odd (length (filter (crossesRay p) (zip loop (rotate1 loop))))"

text \<open>Outline A (side 20) and outline B (side 4) of scenario S3, centred at the origin.\<close>

definition outlineA :: Loop where
  "outlineA = [\<lparr>x = -10, y = -10\<rparr>, \<lparr>x = 10, y = -10\<rparr>, \<lparr>x = 10, y = 10\<rparr>, \<lparr>x = -10, y = 10\<rparr>]"

definition outlineB :: Loop where
  "outlineB = [\<lparr>x = -2, y = -2\<rparr>, \<lparr>x = 2, y = -2\<rparr>, \<lparr>x = 2, y = 2\<rparr>, \<lparr>x = -2, y = 2\<rparr>]"

section \<open>Properties of the loops\<close>

lemma segment_eta: "\<lparr>a = a s, b = b s\<rparr> = (s::TriangleSegment2)"
  by (cases s) simp

lemma createBisectorsLoop_eq:
  "createBisectorsLoop segments tol k i motorCycles =
     (if list_all (adjacentAt segments tol) [i..<i + k]
      then Inr (motorCycles @ map (bisectorAt segments) [i..<i + k])
      else Inl OpenPolygon)"
proof (induction k arbitrary: i motorCycles)
  case 0
  show ?case by simp
next
  case (Suc k)
  have split: "[i..<i + Suc k] = i # [Suc i..<Suc i + k]"
    by (simp add: upt_conv_Cons)
  show ?case
    unfolding split
    by (simp add: Suc.IH Let_def adjacentAt_def bisectorAt_def prevIndex_def)
qed

lemma createBisectors_eq:
  "createBisectors segments tol motorCycles =
     (if closedPolygon segments tol then Inr (motorCycles @ bisectorsOf segments)
      else Inl OpenPolygon)"
  by (simp add: createBisectors_def createBisectorsLoop_eq closedPolygon_def bisectorsOf_def)

lemma closedPolygon_iff:
  "closedPolygon segments tol \<longleftrightarrow> (\<forall>i<length segments. adjacentAt segments tol i)"
  by (auto simp: closedPolygon_def list_all_iff)

text \<open>The inset call, with the loop of \<^verbatim>\<open>createBisectors\<close> resolved.\<close>

lemma inset_eq:
  "inset segments d tol =
     (if segments = [] then Inl AssertionFailed
      else if length segments < 2 then Inl (TooFewSegments (length segments))
      else if \<not> closedPolygon segments tol then Inl OpenPolygon
      else Inr (let relevantSegments = removeCollapsedSegments segments (bisectorsOf segments) d
                in if relevantSegments = [] then []
                   else elongateAndTrimSegments (insetSegments relevantSegments d) (d * 100)))"
  by (simp add: inset_def createBisectors_eq Let_def)

lemma insetSegmentsLoop_eq:
  "insetSegmentsLoop segments d insets =
     insets @ map (\<lambda>s. translate s (Vector2_scale (getInsetDirection s) d)) segments"
  by (induction segments arbitrary: insets) (simp_all add: Let_def translate_def)

lemma insetSegments_eq:
  "insetSegments segments d =
     map (\<lambda>s. translate s (Vector2_scale (getInsetDirection s) d)) segments"
  by (simp add: insetSegments_def insetSegmentsLoop_eq)

lemma getInsetDirection_spec: "getInsetDirection s = spec_inset_direction s"
  by (simp add: getInsetDirection_def spec_inset_direction_def Vector2_sub_def Let_def)

lemma length_attachAt: "length (attachAt segments p i e) = length segments"
  by (simp add: attachAt_def split: prod.splits)

lemma length_elongateAndTrimLoop:
  "length (elongateAndTrimLoop segments e k i) = length segments"
  by (induction k arbitrary: segments i) (simp_all add: Let_def length_attachAt)

lemma length_elongateAndTrimSegments:
  "length (elongateAndTrimSegments segments e) = length segments"
  by (simp add: elongateAndTrimSegments_def length_elongateAndTrimLoop)


lemma attachAt_None:
  "segmentSegmentIntersection (elongate (segments ! p) e False True)
      (elongate (segments ! i) e True False) = None
   \<Longrightarrow> attachAt segments p i e = segments"
  by (simp add: attachAt_def attachSegments_def segment_eta)

lemma attachAt_Some:
  "p \<noteq> i \<Longrightarrow>
   segmentSegmentIntersection (elongate (segments ! p) e False True)
      (elongate (segments ! i) e True False) = Some q \<Longrightarrow>
   attachAt segments p i e =
     segments[p := (segments ! p)\<lparr>b := q\<rparr>, i := (segments ! i)\<lparr>a := q\<rparr>]"
  by (simp add: attachAt_def attachSegments_def)

text \<open>
  Two bisectors with a vanishing cross product span parallel lines: the bisector
  segments are never attached and the edge is kept.
\<close>

lemma ssi_parallel:
  "(x (b s2) - x (a s2)) * (y (b s1) - y (a s1)) = (x (b s1) - x (a s1)) * (y (b s2) - y (a s2))
   \<Longrightarrow> segmentSegmentIntersection s1 s2 = None"
  by (simp add: segmentSegmentIntersection_def Let_def)

lemma edgeCollapse_parallel:
  assumes "x b0 * y b1 = y b0 * x b1"
  shows "edgeCollapse s b0 b1 d e = (False, None)"
proof -
  let ?s0 = "\<lparr>a = a s, b = Vector2_add (a s) b0\<rparr>"
  let ?s1 = "\<lparr>a = b s, b = Vector2_add (b s) b1\<rparr>"
  have "segmentSegmentIntersection (elongate ?s0 e False True) (elongate ?s1 e True False) = None"
    apply (rule ssi_parallel)
    using assms
    apply (simp add: elongate_def Let_def Vector2_add_def Vector2_sub_def Vector2_scale_def
        normalise_def)
    apply (simp add: algebra_simps)
    done
  then show ?thesis
    by (simp add: edgeCollapse_def attachSegments_def Let_def)
qed

subsection \<open>What the collapse removal keeps\<close>

text \<open>
  After \<open>n - 2\<close> collapses the index of the bisector before the segment has fallen
  behind so far that it names the bisector after the segment: the test compares a
  bisector with itself, finds the two bisector segments parallel, and keeps the
  segment.  So of an input of at least two segments, at least two are kept.
\<close>

lemma edgeCollapse_same_bisector: "fst (edgeCollapse s v v d e) = False"
  by (simp add: edgeCollapse_parallel)

lemma wrap_mod:
  assumes "0 < (n::nat)" "j < n"
  shows "(if j = n - 1 then 0 else j + 1) = (j + 1) mod n"
proof (cases "j = n - 1")
  case True
  with assms have "j + 1 = n" by linarith
  with True show ?thesis by simp
next
  case False
  with assms have "j + 1 < n" by linarith
  with False show ?thesis by simp
qed

lemma removeCollapsedLoop_keeps_two:
  assumes "2 \<le> length segments"
    and "k \<le> length segments"
    and "p = (length segments - 1 + length acc) mod length segments"
    and "q = (length segments - k + 1) mod length segments"
    and "length acc \<le> length segments - k"
    and "length segments - k - length acc \<le> length segments - 2"
  shows "2 \<le> length (removeCollapsedLoop segments bisectors d k p c q acc)"
  using assms(2-)
proof (induction k arbitrary: p c q acc)
  case 0
  then show ?case
    using assms(1) by simp
next
  case (Suc k)
  let ?n = "length segments"
  let ?m = "length acc"
  have n: "0 < ?n" "2 \<le> ?n"
    using assms(1) by linarith+
  have k: "k \<le> ?n" "k < ?n"
    using Suc.prems(1) by simp_all
  have plt: "p < ?n" and qlt: "q < ?n"
    using Suc.prems(2,3) n(1) by simp_all
  have q': "(if q = ?n - 1 then 0 else q + 1) = (?n - k + 1) mod ?n"
  proof -
    have "(if q = ?n - 1 then 0 else q + 1) = (q + 1) mod ?n"
      using wrap_mod [OF n(1) qlt] .
    also have "\<dots> = (?n - Suc k + 1 + 1) mod ?n"
      unfolding Suc.prems(3) by (simp add: mod_Suc_eq)
    also have "?n - Suc k + 1 + 1 = ?n - k + 1"
      using k(2) by simp
    finally show ?thesis .
  qed
  let ?s = "segments ! c"
  let ?collapsed = "fst (edgeCollapse ?s (bisectors ! p) (bisectors ! q) d 100)"
  let ?c' = "if c = ?n - 1 then 0 else c + 1"
  show ?case
  proof (cases ?collapsed)
    case True
    have neq: "p \<noteq> q"
      using True edgeCollapse_same_bisector [of ?s "bisectors ! p" d 100] by auto
    have le: "?m \<le> ?n - k"
      using Suc.prems(4) by simp
    have room: "?n - k - ?m \<le> ?n - 2"
    proof (rule ccontr)
      assume "\<not> ?n - k - ?m \<le> ?n - 2"
      with Suc.prems(4,5) k(2) have eq: "?n - Suc k - ?m = ?n - 2" and "?m \<le> ?n - Suc k"
        by linarith+
      then have "?n - Suc k + 1 = ?n - 1 + ?m"
        using n(2) k(2) by linarith
      then have "p = q"
        unfolding Suc.prems(2,3) by simp
      with neq show False ..
    qed
    have "2 \<le> length (removeCollapsedLoop segments bisectors d k p ?c'
                      (if q = ?n - 1 then 0 else q + 1) acc)"
      by (rule Suc.IH [OF k(1) Suc.prems(2) q' le room])
    with True show ?thesis
      by (simp add: Let_def)
  next
    case False
    have p': "(if p = ?n - 1 then 0 else p + 1) = (?n - 1 + length (acc @ [?s])) mod ?n"
    proof -
      have "(if p = ?n - 1 then 0 else p + 1) = (p + 1) mod ?n"
        using wrap_mod [OF n(1) plt] .
      also have "\<dots> = (?n - 1 + ?m + 1) mod ?n"
        unfolding Suc.prems(2) by (simp add: mod_Suc_eq)
      finally show ?thesis by simp
    qed
    have le: "length (acc @ [?s]) \<le> ?n - k"
      using Suc.prems(4) k(2) by simp
    have room: "?n - k - length (acc @ [?s]) \<le> ?n - 2"
      using Suc.prems(5) k(2) by simp
    have "2 \<le> length (removeCollapsedLoop segments bisectors d k
                      (if p = ?n - 1 then 0 else p + 1) ?c'
                      (if q = ?n - 1 then 0 else q + 1) (acc @ [?s]))"
      by (rule Suc.IH [OF k(1) p' q' le room])
    with False show ?thesis
      by (simp add: Let_def)
  qed
qed

lemma removeCollapsedSegments_keeps_two:
  assumes "2 \<le> length segments"
  shows "2 \<le> length (removeCollapsedSegments segments bisectors d)"
  unfolding removeCollapsedSegments_def
  using assms by (intro removeCollapsedLoop_keeps_two) simp_all

section \<open>Evaluation on axis-parallel segments\<close>

lemma getInsetDirection_eq:
  "getInsetDirection s =
     \<lparr>x = (y (b s) - y (a s)) / sqrt (squaredLength s),
      y = (x (a s) - x (b s)) / sqrt (squaredLength s)\<rparr>"
proof -
  have "- ((x (b s) - x (a s)) / sqrt (squaredLength s)) =
        (x (a s) - x (b s)) / sqrt (squaredLength s)"
    by (simp add: divide_simps)
  then show ?thesis
    by (simp add: getInsetDirection_def normalise3_def crossProduct_def magnitude3_def
        squaredLength_def Let_def add.commute)
qed

lemma neg_quot: "u \<noteq> v \<Longrightarrow> (u - v) / (v - u) = (-1::real)"
  by (simp add: field_simps)

lemma neg_quot_mult: "u \<noteq> v \<Longrightarrow> (u - v) * e / (v - u) = - (e::real)"
  by (simp add: field_simps)

lemma getInsetDirection_vertical:
  "getInsetDirection (segment x0 y0 x0 y1) = \<lparr>x = sgn (y1 - y0), y = 0\<rparr>"
  by (simp add: getInsetDirection_eq segment_def squaredLength_def sgn_real_def neg_quot)

lemma getInsetDirection_horizontal:
  "getInsetDirection (segment x0 y0 x1 y0) = \<lparr>x = 0, y = sgn (x0 - x1)\<rparr>"
  by (simp add: getInsetDirection_eq segment_def squaredLength_def sgn_real_def neg_quot)

lemma elongate_vertical:
  "elongate (segment x0 y0 x0 y1) e fs fe =
     segment x0 (if fs then y0 - sgn (y1 - y0) * e else y0)
             x0 (if fe then y1 + sgn (y1 - y0) * e else y1)"
  by (simp add: elongate_def segment_def Let_def Vector2_add_def Vector2_sub_def
      Vector2_scale_def normalise_def magnitude_def sgn_real_def neg_quot_mult)

lemma elongate_horizontal:
  "elongate (segment x0 y0 x1 y0) e fs fe =
     segment (if fs then x0 - sgn (x1 - x0) * e else x0) y0
             (if fe then x1 + sgn (x1 - x0) * e else x1) y0"
  by (simp add: elongate_def segment_def Let_def Vector2_add_def Vector2_sub_def
      Vector2_scale_def normalise_def magnitude_def sgn_real_def neg_quot_mult)

lemma segment_update:
  "(segment x0 y0 x1 y1)\<lparr>a := \<lparr>x = u, y = v\<rparr>\<rparr> = segment u v x1 y1"
  "(segment x0 y0 x1 y1)\<lparr>b := \<lparr>x = u, y = v\<rparr>\<rparr> = segment x0 y0 u v"
  by (simp_all add: segment_def)

lemma segment_sel:
  "a (segment x0 y0 x1 y1) = \<lparr>x = x0, y = y0\<rparr>"
  "b (segment x0 y0 x1 y1) = \<lparr>x = x1, y = y1\<rparr>"
  by (simp_all add: segment_def)

lemma translate_segment:
  "translate (segment x0 y0 x1 y1) \<lparr>x = u, y = v\<rparr> =
     segment (x0 + u) (y0 + v) (x1 + u) (y1 + v)"
  by (simp add: translate_def segment_def Vector2_add_def)

lemma ssi_segment:
  "segmentSegmentIntersection (segment p0x p0y p1x p1y) (segment p2x p2y p3x p3y) =
     (let s1_x = p1x - p0x; s1_y = p1y - p0y; s2_x = p3x - p2x; s2_y = p3y - p2y;
          den = - s2_x * s1_y + s1_x * s2_y
      in if den = 0 then None
         else let s = (- s1_y * (p0x - p2x) + s1_x * (p0y - p2y)) / den;
                  t = (s2_x * (p0y - p2y) - s2_y * (p0x - p2x)) / den
              in if 0 \<le> s \<and> s \<le> 1 \<and> 0 \<le> t \<and> t \<le> 1
                 then Some \<lparr>x = p0x + t * s1_x, y = p0y + t * s1_y\<rparr>
                 else None)"
  by (simp add: segmentSegmentIntersection_def segment_def Let_def)

lemmas trim_simps = attachAt_Some elongate_vertical elongate_horizontal ssi_segment Let_def
  segment_update

lemma diag_normalise:
  "normalise \<lparr>x = 1, y = 1\<rparr> = \<lparr>x = 1 / sqrt 2, y = 1 / sqrt 2\<rparr>"
  "normalise \<lparr>x = 1, y = -1\<rparr> = \<lparr>x = 1 / sqrt 2, y = - 1 / sqrt 2\<rparr>"
  "normalise \<lparr>x = -1, y = -1\<rparr> = \<lparr>x = - 1 / sqrt 2, y = - 1 / sqrt 2\<rparr>"
  "normalise \<lparr>x = -1, y = 1\<rparr> = \<lparr>x = - 1 / sqrt 2, y = 1 / sqrt 2\<rparr>"
  by (simp_all add: normalise_def Vector2_scale_def magnitude_def Let_def)

subsection \<open>The two squares\<close>

lemma closedPolygon_squareCW: "0 < tol \<Longrightarrow> closedPolygon squareCW tol"
  by (simp add: closedPolygon_def adjacentAt_def squareCW_def prevIndex_def upt_conv_Cons
      segment_def sameSame_def)

lemma closedPolygon_squareCCW: "0 < tol \<Longrightarrow> closedPolygon squareCCW tol"
  by (simp add: closedPolygon_def adjacentAt_def squareCCW_def prevIndex_def upt_conv_Cons
      segment_def sameSame_def)

lemma bisectorsOf_squareCW:
  "bisectorsOf squareCW =
     [\<lparr>x = 1 / sqrt 2, y = 1 / sqrt 2\<rparr>, \<lparr>x = 1 / sqrt 2, y = - 1 / sqrt 2\<rparr>,
      \<lparr>x = - 1 / sqrt 2, y = - 1 / sqrt 2\<rparr>, \<lparr>x = - 1 / sqrt 2, y = 1 / sqrt 2\<rparr>]"
  by (simp add: bisectorsOf_def bisectorAt_def squareCW_def prevIndex_def upt_conv_Cons
      getInsetDirection_vertical getInsetDirection_horizontal Vector2_add_def diag_normalise)

lemma bisectorsOf_squareCCW:
  "bisectorsOf squareCCW =
     [\<lparr>x = - 1 / sqrt 2, y = - 1 / sqrt 2\<rparr>, \<lparr>x = 1 / sqrt 2, y = - 1 / sqrt 2\<rparr>,
      \<lparr>x = 1 / sqrt 2, y = 1 / sqrt 2\<rparr>, \<lparr>x = - 1 / sqrt 2, y = 1 / sqrt 2\<rparr>]"
  by (simp add: bisectorsOf_def bisectorAt_def squareCCW_def prevIndex_def upt_conv_Cons
      getInsetDirection_vertical getInsetDirection_horizontal Vector2_add_def diag_normalise)

text \<open>
  On a square the bisector before a segment and the bisector after it are opposite
  vectors, so no segment is ever found collapsed, whatever the inset distance.
\<close>

lemma removeCollapsed_squareCW:
  "removeCollapsedSegments squareCW (bisectorsOf squareCW) d = squareCW"
  unfolding bisectorsOf_squareCW
  by (simp add: removeCollapsedSegments_def squareCW_def Let_def edgeCollapse_parallel)

lemma removeCollapsed_squareCCW:
  "removeCollapsedSegments squareCCW (bisectorsOf squareCCW) d = squareCCW"
  unfolding bisectorsOf_squareCCW
  by (simp add: removeCollapsedSegments_def squareCCW_def Let_def edgeCollapse_parallel)

lemma insetSegments_squareCW:
  "insetSegments squareCW 1 =
     [segment 1 0 1 10, segment 0 9 10 9, segment 9 10 9 0, segment 10 1 0 1]"
  by (simp add: insetSegments_eq squareCW_def getInsetDirection_vertical
      getInsetDirection_horizontal Vector2_scale_def translate_segment)

lemma insetSegments_squareCCW:
  "insetSegments squareCCW 1 =
     [segment 0 (-1) 10 (-1), segment 11 0 11 10, segment 10 11 0 11, segment (-1) 10 (-1) 0]"
  by (simp add: insetSegments_eq squareCCW_def getInsetDirection_vertical
      getInsetDirection_horizontal Vector2_scale_def translate_segment)

lemma trim_squareCW:
  "elongateAndTrimSegments
     [segment 1 0 1 10, segment 0 9 10 9, segment 9 10 9 0, segment 10 1 0 1] 100 =
   [segment 1 1 1 9, segment 1 9 9 9, segment 9 9 9 1, segment 9 1 1 1]"
proof -
  have s0: "attachAt [segment 1 0 1 10, segment 0 9 10 9, segment 9 10 9 0, segment 10 1 0 1]
              (Suc (Suc (Suc 0))) 0 100 =
            [segment 1 1 1 10, segment 0 9 10 9, segment 9 10 9 0, segment 10 1 1 1]"
    by (simp add: trim_simps)
  have s1: "attachAt [segment 1 1 1 10, segment 0 9 10 9, segment 9 10 9 0, segment 10 1 1 1]
              0 (Suc 0) 100 =
            [segment 1 1 1 9, segment 1 9 10 9, segment 9 10 9 0, segment 10 1 1 1]"
    by (simp add: trim_simps)
  have s2: "attachAt [segment 1 1 1 9, segment 1 9 10 9, segment 9 10 9 0, segment 10 1 1 1]
              (Suc 0) (Suc (Suc 0)) 100 =
            [segment 1 1 1 9, segment 1 9 9 9, segment 9 9 9 0, segment 10 1 1 1]"
    by (simp add: trim_simps)
  have s3: "attachAt [segment 1 1 1 9, segment 1 9 9 9, segment 9 9 9 0, segment 10 1 1 1]
              (Suc (Suc 0)) (Suc (Suc (Suc 0))) 100 =
            [segment 1 1 1 9, segment 1 9 9 9, segment 9 9 9 1, segment 9 1 1 1]"
    by (simp add: trim_simps)
  show ?thesis
    by (simp add: elongateAndTrimSegments_def s0 s1 s2 s3)
qed

lemma trim_squareCCW:
  "elongateAndTrimSegments
     [segment 0 (-1) 10 (-1), segment 11 0 11 10, segment 10 11 0 11, segment (-1) 10 (-1) 0]
     100 =
   [segment (-1) (-1) 11 (-1), segment 11 (-1) 11 11, segment 11 11 (-1) 11,
    segment (-1) 11 (-1) (-1)]"
proof -
  have s0: "attachAt [segment 0 (-1) 10 (-1), segment 11 0 11 10, segment 10 11 0 11,
                      segment (-1) 10 (-1) 0] (Suc (Suc (Suc 0))) 0 100 =
            [segment (-1) (-1) 10 (-1), segment 11 0 11 10, segment 10 11 0 11,
             segment (-1) 10 (-1) (-1)]"
    by (simp add: trim_simps)
  have s1: "attachAt [segment (-1) (-1) 10 (-1), segment 11 0 11 10, segment 10 11 0 11,
                      segment (-1) 10 (-1) (-1)] 0 (Suc 0) 100 =
            [segment (-1) (-1) 11 (-1), segment 11 (-1) 11 10, segment 10 11 0 11,
             segment (-1) 10 (-1) (-1)]"
    by (simp add: trim_simps)
  have s2: "attachAt [segment (-1) (-1) 11 (-1), segment 11 (-1) 11 10, segment 10 11 0 11,
                      segment (-1) 10 (-1) (-1)] (Suc 0) (Suc (Suc 0)) 100 =
            [segment (-1) (-1) 11 (-1), segment 11 (-1) 11 11, segment 11 11 0 11,
             segment (-1) 10 (-1) (-1)]"
    by (simp add: trim_simps)
  have s3: "attachAt [segment (-1) (-1) 11 (-1), segment 11 (-1) 11 11, segment 11 11 0 11,
                      segment (-1) 10 (-1) (-1)] (Suc (Suc 0)) (Suc (Suc (Suc 0))) 100 =
            [segment (-1) (-1) 11 (-1), segment 11 (-1) 11 11, segment 11 11 (-1) 11,
             segment (-1) 11 (-1) (-1)]"
    by (simp add: trim_simps)
  show ?thesis
    by (simp add: elongateAndTrimSegments_def s0 s1 s2 s3)
qed

lemma inset_squareCW:
  "0 < tol \<Longrightarrow> inset squareCW 1 tol =
     Inr [segment 1 1 1 9, segment 1 9 9 9, segment 9 9 9 1, segment 9 1 1 1]"
  by (simp add: inset_eq closedPolygon_squareCW removeCollapsed_squareCW insetSegments_squareCW
      trim_squareCW) (simp add: squareCW_def)

lemma inset_squareCCW:
  "0 < tol \<Longrightarrow> inset squareCCW 1 tol =
     Inr [segment (-1) (-1) 11 (-1), segment 11 (-1) 11 11, segment 11 11 (-1) 11,
          segment (-1) 11 (-1) (-1)]"
  by (simp add: inset_eq closedPolygon_squareCCW removeCollapsed_squareCCW
      insetSegments_squareCCW trim_squareCCW) (simp add: squareCCW_def)

lemma closedPolygon_squareCW_cutoff: "closedPolygon squareCW (1 / 100)"
  by (simp add: closedPolygon_squareCW)

subsection \<open>The clockwise square, inset by more than half its side\<close>

lemma insetSegments_squareCW_6:
  "insetSegments squareCW 6 =
     [segment 6 0 6 10, segment 0 4 10 4, segment 4 10 4 0, segment 10 6 0 6]"
  by (simp add: insetSegments_eq squareCW_def getInsetDirection_vertical
      getInsetDirection_horizontal Vector2_scale_def translate_segment)

lemmas trim_fail_simps = attachAt_None elongate_vertical elongate_horizontal ssi_segment
  Let_def

lemma trim_squareCW_6:
  "elongateAndTrimSegments
     [segment 6 0 6 10, segment 0 4 10 4, segment 4 10 4 0, segment 10 6 0 6] 600 =
   [segment 6 6 6 10, segment 0 4 4 4, segment 4 4 4 0, segment 10 6 6 6]"
proof -
  have s0: "attachAt [segment 6 0 6 10, segment 0 4 10 4, segment 4 10 4 0, segment 10 6 0 6]
              (Suc (Suc (Suc 0))) 0 600 =
            [segment 6 6 6 10, segment 0 4 10 4, segment 4 10 4 0, segment 10 6 6 6]"
    by (simp add: trim_simps)
  have s1: "attachAt [segment 6 6 6 10, segment 0 4 10 4, segment 4 10 4 0, segment 10 6 6 6]
              0 (Suc 0) 600 =
            [segment 6 6 6 10, segment 0 4 10 4, segment 4 10 4 0, segment 10 6 6 6]"
    by (simp add: trim_fail_simps)
  have s2: "attachAt [segment 6 6 6 10, segment 0 4 10 4, segment 4 10 4 0, segment 10 6 6 6]
              (Suc 0) (Suc (Suc 0)) 600 =
            [segment 6 6 6 10, segment 0 4 4 4, segment 4 4 4 0, segment 10 6 6 6]"
    by (simp add: trim_simps)
  have s3: "attachAt [segment 6 6 6 10, segment 0 4 4 4, segment 4 4 4 0, segment 10 6 6 6]
              (Suc (Suc 0)) (Suc (Suc (Suc 0))) 600 =
            [segment 6 6 6 10, segment 0 4 4 4, segment 4 4 4 0, segment 10 6 6 6]"
    by (simp add: trim_fail_simps)
  show ?thesis
    by (simp add: elongateAndTrimSegments_def s0 s1 s2 s3)
qed

lemma inset_squareCW_6:
  "inset squareCW 6 (1 / 100) =
     Inr [segment 6 6 6 10, segment 0 4 4 4, segment 4 4 4 0, segment 10 6 6 6]"
  by (simp add: inset_eq closedPolygon_squareCW removeCollapsed_squareCW insetSegments_squareCW_6
      trim_squareCW_6) (simp add: squareCW_def)

lemma rays_meet_centre:
  "Vector2_add (a (squareCW ! 0)) (Vector2_scale (bisectorsOf squareCW ! 0) (5 * sqrt 2)) =
     \<lparr>x = 5, y = 5\<rparr>"
  "Vector2_add (b (squareCW ! 0)) (Vector2_scale (bisectorsOf squareCW ! 1) (5 * sqrt 2)) =
     \<lparr>x = 5, y = 5\<rparr>"
  unfolding bisectorsOf_squareCW
  by (simp_all add: squareCW_def segment_def Vector2_add_def Vector2_scale_def)

lemma altitude_centre:
  "triangleAltitude (TriangleSegment2_length (squareCW ! 0))
     (magnitude (Vector2_sub (a (squareCW ! 0)) \<lparr>x = 5, y = 5\<rparr>))
     (magnitude (Vector2_sub (b (squareCW ! 0)) \<lparr>x = 5, y = 5\<rparr>)) = 5"
proof -
  have len: "TriangleSegment2_length (squareCW ! 0) = 10"
    by (simp add: squareCW_def segment_def TriangleSegment2_length_def squaredLength_def)
  have e0: "magnitude (Vector2_sub (a (squareCW ! 0)) \<lparr>x = 5, y = 5\<rparr>) = sqrt 50"
    by (simp add: squareCW_def segment_def Vector2_sub_def magnitude_def)
  have e1: "magnitude (Vector2_sub (b (squareCW ! 0)) \<lparr>x = 5, y = 5\<rparr>) = sqrt 50"
    by (simp add: squareCW_def segment_def Vector2_sub_def magnitude_def)
  have sq: "sqrt 50 * sqrt 50 = 50"
    by simp
  have "(5 + sqrt 50) * (5 + sqrt 50 - 10) * (5 + sqrt 50 - sqrt 50) * (5 + sqrt 50 - sqrt 50) =
        (sqrt 50 * sqrt 50 - 25) * 25"
    by (simp add: algebra_simps)
  also have "\<dots> = 625"
    by (simp add: sq)
  finally have rad: "(5 + sqrt 50) * (5 + sqrt 50 - 10) * (5 + sqrt 50 - sqrt 50) *
      (5 + sqrt 50 - sqrt 50) = 625" .
  have half: "0.5 * (10 + sqrt 50 + sqrt 50) = 5 + sqrt 50"
    by simp
  have "sqrt 625 = 25"
    by simp
  then show ?thesis
    unfolding len e0 e1 triangleAltitude_def Let_def half rad by simp
qed

text \<open>
  With the bisectors at the two ends of the segment itself the bisector segments are not
  attached either: the second one is elongated backwards from its start, away from
  the point where the two rays meet.
\<close>

lemma own_bisectors_not_attached:
  "edgeCollapse (squareCW ! 0) (bisectorsOf squareCW ! 0) (bisectorsOf squareCW ! 1) 6 100 =
     (False, None)"
proof -
  have big: "\<not> sqrt 2 * 5 \<le> 1"
  proof -
    have "1 \<le> sqrt 2"
      by simp
    then show ?thesis
      by linarith
  qed
  have none: "segmentSegmentIntersection
      \<lparr>a = \<lparr>x = 0, y = 0\<rparr>, b = \<lparr>x = 101 / sqrt 2, y = 101 / sqrt 2\<rparr>\<rparr>
      \<lparr>a = \<lparr>x = - (100 / sqrt 2), y = 10 + 100 / sqrt 2\<rparr>,
        b = \<lparr>x = 1 / sqrt 2, y = 10 - 1 / sqrt 2\<rparr>\<rparr> = None"
    by (simp add: segmentSegmentIntersection_def Let_def) (simp add: field_simps big)
  show ?thesis
    unfolding bisectorsOf_squareCW
    by (simp add: edgeCollapse_def attachSegments_def squareCW_def segment_def Vector2_add_def
        elongate_def Let_def Vector2_sub_def Vector2_scale_def normalise_def magnitude_def none)
qed

subsection \<open>Other inputs\<close>

lemma closedPolygon_triangleCCW: "closedPolygon triangleCCW (1 / 100)"
  by (simp add: closedPolygon_def adjacentAt_def triangleCCW_def prevIndex_def upt_conv_Cons
      segment_def sameSame_def)

lemma closedPolygon_triangleCW: "closedPolygon triangleCW (1 / 100)"
  by (simp add: closedPolygon_def adjacentAt_def triangleCW_def prevIndex_def upt_conv_Cons
      segment_def sameSame_def)

lemma removeShort_trimmed_square:
  "removeShortSegments [segment 1 1 1 9, segment 1 9 9 9, segment 9 9 9 1, segment 9 1 1 1] 9 [] =
     Inr [segment 1 1 9 9, segment 9 9 1 1]"
  by (simp add: removeShortSegments_def removeShortLoop.simps Let_def segment_def
      squaredLength_def)

lemma closedPolygon_spike: "closedPolygon spike (1 / 100)"
  by (simp add: closedPolygon_def adjacentAt_def spike_def prevIndex_def upt_conv_Cons
      segment_def sameSame_def)

lemma nondegenerate_squareCW: "nondegenerate squareCW"
  by (simp add: nondegenerate_def degenerateAt_def squareCW_def prevIndex_def upt_conv_Cons
      getInsetDirection_vertical getInsetDirection_horizontal Vector2_add_def magnitude_def
      Let_def) (simp add: segment_def squaredLength_def)

lemma magnitude_normalise: "magnitude v \<noteq> 0 \<Longrightarrow> magnitude (normalise v) = 1"
proof -
  assume nz: "magnitude v \<noteq> 0"
  let ?m = "magnitude v"
  have pos: "0 < ?m"
    using nz by (simp add: magnitude_def less_le)
  have sq: "x v * x v + y v * y v = ?m * ?m"
    by (simp add: magnitude_def)
  have "x v * (1 / ?m) * (x v * (1 / ?m)) + y v * (1 / ?m) * (y v * (1 / ?m)) =
        (x v * x v + y v * y v) / (?m * ?m)"
    by (simp add: add_divide_distrib)
  also have "\<dots> = 1"
    using pos by (simp add: sq)
  finally show ?thesis
    by (simp add: normalise_def Vector2_scale_def magnitude_def Let_def)
qed

lemma winding_A_B:
  "list_all (\<lambda>q. windingContains outlineA q = windingContains outlineA \<lparr>x = 2, y = 2\<rparr>) outlineB"
  "windingContains outlineA \<lparr>x = 2, y = 2\<rparr>"
  by (simp_all add: windingContains_def outlineA_def outlineB_def crossesRay_def)

lemma winding_B_A:
  "\<not> windingContains outlineB (hd outlineA)"
  by (simp add: windingContains_def outlineA_def outlineB_def crossesRay_def)

section \<open>The claims\<close>

subsection \<open>C1\<close>

text \<open>
  C1, as amended.  The inset call has no failure for a collapsed polygon.  For a closed
  input of at least two segments it always returns: the empty list when the collapse
  removal leaves no segment, and otherwise the trimmed raw insets of the segments that
  are left, however few.  (By \<open>removeCollapsedSegments_keeps_two\<close> at least two are
  left in this model.)
\<close>

theorem inset_returns_after_collapse_removal:
  assumes "2 \<le> length segments" and "closedPolygon segments tol"
  shows "inset segments d tol =
           Inr (if removeCollapsedSegments segments (bisectorsOf segments) d = [] then []
                else elongateAndTrimSegments
                       (insetSegments (removeCollapsedSegments segments (bisectorsOf segments) d) d)
                       (d * 100))"
  using assms by (auto simp: inset_eq Let_def)

theorem inset_returns_after_collapse_removal_witness:
  "2 \<le> length triangleCCW \<and> closedPolygon triangleCCW (1 / 100) \<and>
   inset triangleCCW 2 (1 / 100) =
     Inr (if removeCollapsedSegments triangleCCW (bisectorsOf triangleCCW) 2 = [] then []
          else elongateAndTrimSegments
                 (insetSegments (removeCollapsedSegments triangleCCW (bisectorsOf triangleCCW) 2) 2)
                 (2 * 100))"
proof -
  have len: "2 \<le> length triangleCCW"
    by (simp add: triangleCCW_def)
  from len closedPolygon_triangleCCW
    inset_returns_after_collapse_removal [OF len closedPolygon_triangleCCW, of 2]
  show ?thesis by simp
qed

text \<open>
  C1 as stated fails: insetting the equilateral triangle of side 2 by d = 2 does not
  raise, in either orientation.
\<close>

theorem triangle_collapse_counterexample:
  "\<not> isl (inset triangleCCW 2 (1 / 100)) \<and> \<not> isl (inset triangleCW 2 (1 / 100))"
  by (simp add: inset_eq closedPolygon_triangleCCW closedPolygon_triangleCW)
     (simp add: triangleCCW_def triangleCW_def)

subsection \<open>C2\<close>

text \<open>
  C2, as amended.  The inset direction is the right-hand normal of a segment, so a
  loop is moved to the right of its direction of travel.  For the square of scenario
  S1 as it is given, (0,0), (10,0), (10,10), (0,10), this is outwards: with d = 1 and
  cutoff 0.01 the result is the loop (-1,-1), (11,-1), (11,11), (-1,11).  The same
  square traversed clockwise, (0,0), (0,10), (10,10), (10,0), gives the loop (1,1),
  (1,9), (9,9), (9,1).  Both results are exact in real arithmetic.  The convexity test
  of the same file follows the same convention: it finds the corners of the clockwise
  square convex, and those of the counter-clockwise square not.
\<close>

theorem square_inset_by_orientation:
  "inset squareCCW 1 (1 / 100) =
     Inr [segment (-1) (-1) 11 (-1), segment 11 (-1) 11 11, segment 11 11 (-1) 11,
          segment (-1) 11 (-1) (-1)] \<and>
   inset squareCW 1 (1 / 100) =
     Inr [segment 1 1 1 9, segment 1 9 9 9, segment 9 9 9 1, segment 9 1 1 1] \<and>
   convexVertex (a (squareCW ! 3)) (a (squareCW ! 0)) (b (squareCW ! 0)) \<and>
   \<not> convexVertex (a (squareCCW ! 3)) (a (squareCCW ! 0)) (b (squareCCW ! 0))"
  by (simp add: inset_squareCCW inset_squareCW)
     (simp add: convexVertex_def AreaSign_def squareCW_def squareCCW_def segment_def)

text \<open>
  C2 as stated fails: the result for the square of scenario S1 is not the loop (1,1),
  (9,1), (9,9), (1,9) with its corners within \<open>10\<^sup>-\<^sup>6\<close>.
\<close>

theorem square_inset_counterexample:
  "\<not> (case inset squareCCW 1 (1 / 100) of
         Inl failed \<Rightarrow> False
       | Inr finalInsets \<Rightarrow>
           list_all2 (\<lambda>s c. sameSame (a s) (a c) (1 / 10 ^ 6) \<and> sameSame (b s) (b c) (1 / 10 ^ 6))
             finalInsets
             [segment 1 1 9 1, segment 9 1 9 9, segment 9 9 1 9, segment 1 9 1 1])"
  by (simp add: inset_squareCCW segment_def sameSame_def)

subsection \<open>C3\<close>

text \<open>
  C3, evaluated on the clockwise square of side 10 with d = 6.  The bisector rays at the
  two ends of the first side meet at the centre (5,5), and the altitude of the triangle
  over that side is 5, less than d; the same holds for the other sides by symmetry.
  The collapse removal nevertheless keeps all four sides: it tests a side with the
  bisector of the vertex before its start and the bisector at its end, which on a
  square are opposite vectors; and the test with the two bisectors of the side itself
  finds no intersection either.  The inset call then returns four segments that
  do not form a loop.
\<close>

theorem collapse_test_keeps_collapsed_square:
  "removeCollapsedSegments squareCW (bisectorsOf squareCW) 6 = squareCW \<and>
   inset squareCW 6 (1 / 100) =
     Inr [segment 6 6 6 10, segment 0 4 4 4, segment 4 4 4 0, segment 10 6 6 6] \<and>
   edgeCollapse (squareCW ! 0) (bisectorsOf squareCW ! 0) (bisectorsOf squareCW ! 1) 6 100 =
     (False, None) \<and>
   Vector2_add (a (squareCW ! 0)) (Vector2_scale (bisectorsOf squareCW ! 0) (5 * sqrt 2)) =
     \<lparr>x = 5, y = 5\<rparr> \<and>
   Vector2_add (b (squareCW ! 0)) (Vector2_scale (bisectorsOf squareCW ! 1) (5 * sqrt 2)) =
     \<lparr>x = 5, y = 5\<rparr> \<and>
   triangleAltitude (TriangleSegment2_length (squareCW ! 0))
     (magnitude (Vector2_sub (a (squareCW ! 0)) \<lparr>x = 5, y = 5\<rparr>))
     (magnitude (Vector2_sub (b (squareCW ! 0)) \<lparr>x = 5, y = 5\<rparr>)) = 5"
  by (simp only: removeCollapsed_squareCW inset_squareCW_6 own_bisectors_not_attached
      rays_meet_centre altitude_centre simp_thms)

subsection \<open>C4\<close>

text \<open>
  C4, as amended.  The inset call makes no pass over short segments: what it returns is
  the result of the elongate-and-trim step as it is, and the cutoff only serves as the
  tolerance of the adjacency test.  \<^verbatim>\<open>removeShortSegments\<close> is a separate function that
  the inset call does not use.  At index i it looks at the length of the following
  segment (the first one after the last): if that is below the cutoff, segment i is
  pushed with its end replaced by the end of the following segment and the index
  advances past both; otherwise segment i is pushed as it is.
\<close>

theorem inset_has_no_short_segment_pass:
  "(inset originalSegments d cutoffLength = Inr finalInsets \<longrightarrow>
      finalInsets =
        (let survivors =
               removeCollapsedSegments originalSegments (bisectorsOf originalSegments) d
         in if survivors = [] then []
            else elongateAndTrimSegments (insetSegments survivors d) (d * 100))) \<and>
   (i < length segments \<longrightarrow>
      removeShortLoop segments cutoffSquared i shorts =
        (let nextSeg = segments ! (if i = length segments - 1 then 0 else i + 1)
         in if squaredLength nextSeg < cutoffSquared
            then removeShortLoop segments cutoffSquared (i + 2)
                   (shorts @ [(segments ! i)\<lparr>b := b nextSeg\<rparr>])
            else removeShortLoop segments cutoffSquared (i + 1) (shorts @ [segments ! i])))"
proof -
  have "i < length segments \<Longrightarrow>
      removeShortLoop segments cutoffSquared i shorts =
        (let nextSeg = segments ! (if i = length segments - 1 then 0 else i + 1)
         in if squaredLength nextSeg < cutoffSquared
            then removeShortLoop segments cutoffSquared (i + 2)
                   (shorts @ [(segments ! i)\<lparr>b := b nextSeg\<rparr>])
            else removeShortLoop segments cutoffSquared (i + 1) (shorts @ [segments ! i]))"
    by (subst removeShortLoop.simps) (simp add: Let_def)
  then show ?thesis
    by (auto simp: inset_eq Let_def split: if_splits)
qed

theorem inset_has_no_short_segment_pass_witness:
  "inset squareCW 1 9 =
     Inr [segment 1 1 1 9, segment 1 9 9 9, segment 9 9 9 1, segment 9 1 1 1] \<and>
   [segment 1 1 1 9, segment 1 9 9 9, segment 9 9 9 1, segment 9 1 1 1] =
     elongateAndTrimSegments (insetSegments squareCW 1) 100 \<and>
   removeShortLoop [segment 1 1 1 9, segment 1 9 9 9, segment 9 9 9 1, segment 9 1 1 1]
     81 0 [] =
   removeShortLoop [segment 1 1 1 9, segment 1 9 9 9, segment 9 9 9 1, segment 9 1 1 1]
     81 2 [segment 1 1 9 9]"
proof -
  let ?trimmed = "[segment 1 1 1 9, segment 1 9 9 9, segment 9 9 9 1, segment 9 1 1 1]"
  note inst =
    inset_has_no_short_segment_pass [where originalSegments = squareCW and d = 1
      and cutoffLength = 9 and finalInsets = ?trimmed and segments = ?trimmed and i = 0
      and cutoffSquared = 81 and shorts = "[]"]
  have run: "inset squareCW 1 9 = Inr ?trimmed"
    by (simp add: inset_squareCW)
  have nonempty: "squareCW \<noteq> []"
    by (simp add: squareCW_def)
  have trimmed: "?trimmed = elongateAndTrimSegments (insetSegments squareCW 1) 100"
    using inst run nonempty by (simp add: removeCollapsed_squareCW)
  have short: "squaredLength (segment 1 9 9 9) < 81"
    by (simp add: squaredLength_def segment_def)
  have step: "removeShortLoop ?trimmed 81 0 [] = removeShortLoop ?trimmed 81 2 [segment 1 1 9 9]"
    using inst short by (simp add: segment_sel segment_update numeral_2_eq_2)
  from run trimmed step show ?thesis
    by (simp only: simp_thms)
qed

text \<open>
  C4 as stated fails: with d = 1 and cutoff 9 the inset of the clockwise square returns
  four segments of length 8, each below the cutoff; a pass of \<^verbatim>\<open>removeShortSegments\<close>
  over them would have left two.
\<close>

theorem short_segment_pass_counterexample:
  "inset squareCW 1 9 =
     Inr [segment 1 1 1 9, segment 1 9 9 9, segment 9 9 9 1, segment 9 1 1 1] \<and>
   list_all (\<lambda>s. squaredLength s < 9 * 9)
     [segment 1 1 1 9, segment 1 9 9 9, segment 9 9 9 1, segment 9 1 1 1] \<and>
   removeShortSegments [segment 1 1 1 9, segment 1 9 9 9, segment 9 9 9 1, segment 9 1 1 1] 9 [] =
     Inr [segment 1 1 9 9, segment 9 9 1 1]"
  by (simp add: inset_squareCW removeShort_trimmed_square) (simp add: segment_def squaredLength_def)

subsection \<open>C5\<close>

text \<open>
  C5.  The inset call raises the "not a closed polygon" failure exactly when the input
  has a pair of consecutive segments (so at least two segments; the pairs are taken
  cyclically, the last segment preceding the first) in which the end of the earlier
  segment is not within the tolerance of the start of the later one.  The failure is
  the result of the call: no segments are returned.
\<close>

theorem open_polygon_iff_adjacency_violated:
  "inset segments d tol = Inl OpenPolygon \<longleftrightarrow>
     2 \<le> length segments \<and> (\<exists>i<length segments. \<not> adjacentAt segments tol i)"
  by (auto simp: inset_eq closedPolygon_iff)

theorem open_polygon_iff_adjacency_violated_witness:
  "inset [segment 0 0 1 0, segment 2 0 0 0] 1 (1 / 100) = Inl OpenPolygon \<and>
   \<not> adjacentAt [segment 0 0 1 0, segment 2 0 0 0] (1 / 100) 1 \<and>
   inset squareCW 1 (1 / 100) \<noteq> Inl OpenPolygon \<and>
   closedPolygon squareCW (1 / 100)"
proof -
  let ?open = "[segment 0 0 1 0, segment 2 0 0 0]"
  have violated: "\<not> adjacentAt ?open (1 / 100) 1"
    by (simp add: adjacentAt_def prevIndex_def segment_def sameSame_def)
  then have "\<exists>i<length ?open. \<not> adjacentAt ?open (1 / 100) i"
    by (intro exI[of _ 1]) simp
  then have raised: "inset ?open 1 (1 / 100) = Inl OpenPolygon"
    using open_polygon_iff_adjacency_violated [of ?open 1 "1 / 100"] by simp
  have closed: "\<forall>i<length squareCW. adjacentAt squareCW (1 / 100) i"
    using closedPolygon_squareCW [of "1 / 100"] by (simp add: closedPolygon_iff)
  then have "inset squareCW 1 (1 / 100) \<noteq> Inl OpenPolygon"
    using open_polygon_iff_adjacency_violated [of squareCW 1 "1 / 100"] by blast
  with violated raised closedPolygon_squareCW [of "1 / 100"] show ?thesis by simp
qed

subsection \<open>C6\<close>

text \<open>
  C6.  The raw-inset step translates each segment it is given by d times the inset
  direction of that segment, which is \<^verbatim>\<open>normalize(cross(s.b - s.a, +z)).xy\<close>; in the
  inset call the segments it is given are the survivors of the collapse removal.
\<close>

theorem raw_inset_translates_survivors:
  "getInsetDirection s = spec_inset_direction s \<and>
   insetSegments segments d =
     map (\<lambda>s. translate s (Vector2_scale (spec_inset_direction s) d)) segments \<and>
   (inset originalSegments d tol = Inr finalInsets \<longrightarrow>
      finalInsets =
        (let survivors =
               removeCollapsedSegments originalSegments (bisectorsOf originalSegments) d
         in if survivors = [] then []
            else elongateAndTrimSegments
                   (map (\<lambda>s. translate s (Vector2_scale (spec_inset_direction s) d)) survivors)
                   (d * 100)))"
  by (auto simp: getInsetDirection_spec insetSegments_eq inset_eq Let_def split: if_splits)

theorem raw_inset_translates_survivors_witness:
  "inset squareCW 1 (1 / 100) =
     Inr [segment 1 1 1 9, segment 1 9 9 9, segment 9 9 9 1, segment 9 1 1 1] \<and>
   [segment 1 1 1 9, segment 1 9 9 9, segment 9 9 9 1, segment 9 1 1 1] =
     elongateAndTrimSegments
       (map (\<lambda>s. translate s (Vector2_scale (spec_inset_direction s) 1)) squareCW) 100"
proof -
  have run: "inset squareCW 1 (1 / 100) =
      Inr [segment 1 1 1 9, segment 1 9 9 9, segment 9 9 9 1, segment 9 1 1 1]"
    by (simp add: inset_squareCW)
  have "squareCW \<noteq> []"
    by (simp add: squareCW_def)
  with run show ?thesis
    using raw_inset_translates_survivors [where originalSegments = squareCW and d = 1
        and tol = "1 / 100"
        and finalInsets = "[segment 1 1 1 9, segment 1 9 9 9, segment 9 9 9 1, segment 9 1 1 1]"]
    by (simp add: removeCollapsed_squareCW)
qed

subsection \<open>C7\<close>



subsection \<open>C8\<close>

text \<open>
  C8, as amended.  For a closed input polygon in which no segment has length zero and at
  no vertex the inset directions of the two segments cancel, \<^verbatim>\<open>createBisectors\<close>
  produces, for every vertex, the normalised sum of the inset directions of its two
  segments, and each of these vectors has length 1 (exactly, in real arithmetic).
\<close>

theorem bisectors_are_unit_vectors:
  assumes "closedPolygon segments tol" and "nondegenerate segments"
  shows "createBisectors segments tol [] = Inr (bisectorsOf segments) \<and>
         list_all (\<lambda>v. magnitude v = 1) (bisectorsOf segments) \<and>
         bisectorsOf segments =
           map (\<lambda>i. normalise (Vector2_add (getInsetDirection (segments ! i))
                     (getInsetDirection (segments ! prevIndex (length segments) i))))
             [0..<length segments]"
proof -
  have "magnitude (bisectorAt segments i) = 1" if "i < length segments" for i
  proof -
    have "\<not> degenerateAt segments i"
      using assms(2) that by (simp add: nondegenerate_def list_all_iff)
    then show ?thesis
      by (simp add: degenerateAt_def bisectorAt_def Let_def magnitude_normalise)
  qed
  then have "list_all (\<lambda>v. magnitude v = 1) (bisectorsOf segments)"
    by (simp add: bisectorsOf_def list_all_iff)
  moreover have "bisectorsOf segments =
           map (\<lambda>i. normalise (Vector2_add (getInsetDirection (segments ! i))
                     (getInsetDirection (segments ! prevIndex (length segments) i))))
             [0..<length segments]"
    by (simp add: bisectorsOf_def bisectorAt_def)
  ultimately show ?thesis
    using assms(1) by (simp add: createBisectors_eq)
qed

theorem bisectors_are_unit_vectors_witness:
  "closedPolygon squareCW (1 / 100) \<and> nondegenerate squareCW \<and>
   createBisectors squareCW (1 / 100) [] = Inr (bisectorsOf squareCW) \<and>
   list_all (\<lambda>v. magnitude v = 1) (bisectorsOf squareCW)"
  using bisectors_are_unit_vectors [OF closedPolygon_squareCW_cutoff nondegenerate_squareCW]
    closedPolygon_squareCW_cutoff nondegenerate_squareCW
  by blast

text \<open>
  C8 as stated fails: the polygon of two segments, there and back, passes the adjacency
  test, and the inset directions of its two segments cancel; the bisector is the
  normalisation of the zero vector, which is not a unit vector.
\<close>

theorem bisector_unit_counterexample:
  "closedPolygon spike (1 / 100) \<and>
   createBisectors spike (1 / 100) [] = Inr (bisectorsOf spike) \<and>
   \<not> \<bar>magnitude (bisectorsOf spike ! 0) - 1\<bar> \<le> 1 / 10 ^ 9"
proof -
  have "bisectorsOf spike ! 0 = \<lparr>x = 0, y = 0\<rparr>"
    by (simp add: bisectorsOf_def bisectorAt_def spike_def prevIndex_def upt_conv_Cons
        getInsetDirection_horizontal Vector2_add_def normalise_def Vector2_scale_def Let_def)
  then show ?thesis
    by (simp add: closedPolygon_spike createBisectors_eq magnitude_def)
qed

subsection \<open>C9\<close>

text \<open>
  C9.  A root contains every normal tree and no root; a normal tree contains no root; a
  normal tree contains a normal tree exactly when the winding test of its loop holds
  for the first point of the other loop, and hence for any point whatever when the
  winding test gives the same answer on all points of the other loop.
\<close>

theorem contains_root_and_normal:
  "(\<not> isValid t \<and> isValid other \<longrightarrow> contains wc t other) \<and>
   (\<not> isValid t \<and> \<not> isValid other \<longrightarrow> \<not> contains wc t other) \<and>
   (isValid t \<and> \<not> isValid other \<longrightarrow> \<not> contains wc t other) \<and>
   (isValid t \<and> isValid other \<longrightarrow>
      contains wc t other = wc (m_loop t) (hd (m_loop other))) \<and>
   (isValid t \<and> isValid other \<and> list_all (\<lambda>q. wc (m_loop t) q = wc (m_loop t) p) (m_loop other)
      \<longrightarrow> contains wc t other = wc (m_loop t) p)"
proof -
  have "contains wc t other = wc (m_loop t) p"
    if "isValid t" "isValid other"
      "list_all (\<lambda>q. wc (m_loop t) q = wc (m_loop t) p) (m_loop other)"
  proof -
    have "hd (m_loop other) \<in> set (m_loop other)"
      using that(2) by (simp add: isValid_def)
    then have "wc (m_loop t) (hd (m_loop other)) = wc (m_loop t) p"
      using that(3) by (simp add: list_all_iff)
    then show ?thesis
      using that(1,2) by (simp add: contains_def)
  qed
  then show ?thesis
    by (auto simp: contains_def)
qed

text \<open>
  The witness is scenario S3: a root, outline A (side 20) and outline B (side 4), with
  the ray-crossing test.
\<close>

theorem contains_root_and_normal_witness:
  "contains windingContains (ContainmentTree [] [] ()) (ContainmentTree outlineA [] ()) \<and>
   \<not> contains windingContains (ContainmentTree [] [] ()) (ContainmentTree [] [] ()) \<and>
   \<not> contains windingContains (ContainmentTree outlineA [] ()) (ContainmentTree [] [] ()) \<and>
   contains windingContains (ContainmentTree outlineA [] ()) (ContainmentTree outlineB [] ()) \<and>
   \<not> contains windingContains (ContainmentTree outlineB [] ()) (ContainmentTree outlineA [] ())"
proof -
  let ?root = "ContainmentTree [] [] ()"
  let ?A = "ContainmentTree outlineA [] ()"
  let ?B = "ContainmentTree outlineB [] ()"
  have valid: "\<not> isValid ?root" "isValid ?A" "isValid ?B"
    by (simp_all add: isValid_def outlineA_def outlineB_def)
  show ?thesis
    using valid winding_A_B winding_B_A
      contains_root_and_normal [of ?root ?A windingContains]
      contains_root_and_normal [of ?root ?root windingContains]
      contains_root_and_normal [of ?A ?root windingContains]
      contains_root_and_normal [of ?A ?B windingContains "\<lparr>x = 2, y = 2\<rparr>"]
      contains_root_and_normal [of ?B ?A windingContains]
    by auto
qed

subsection \<open>C10\<close>

text \<open>
  C10.  The raw-inset step and the elongate-and-trim step keep the number of segments,
  so a successful inset call returns exactly one segment for each segment that
  survived the collapse removal: nothing is inserted at a reflex vertex, and when no
  segment collapses the result has as many segments as the input.
\<close>

theorem one_output_segment_per_survivor:
  "length (insetSegments segments d) = length segments \<and>
   length (elongateAndTrimSegments segments e) = length segments \<and>
   (inset originalSegments d tol = Inr finalInsets \<longrightarrow>
      length finalInsets =
        length (removeCollapsedSegments originalSegments (bisectorsOf originalSegments) d) \<and>
      (removeCollapsedSegments originalSegments (bisectorsOf originalSegments) d =
         originalSegments \<longrightarrow> length finalInsets = length originalSegments))"
  by (auto simp: insetSegments_eq length_elongateAndTrimSegments inset_eq Let_def
      split: if_splits)

theorem one_output_segment_per_survivor_witness:
  "inset squareCW 1 (1 / 100) =
     Inr [segment 1 1 1 9, segment 1 9 9 9, segment 9 9 9 1, segment 9 1 1 1] \<and>
   removeCollapsedSegments squareCW (bisectorsOf squareCW) 1 = squareCW \<and>
   length [segment 1 1 1 9, segment 1 9 9 9, segment 9 9 9 1, segment 9 1 1 1] =
     length squareCW"
proof -
  have run: "inset squareCW 1 (1 / 100) =
      Inr [segment 1 1 1 9, segment 1 9 9 9, segment 9 9 9 1, segment 9 1 1 1]"
    by (simp add: inset_squareCW)
  with removeCollapsed_squareCW [of 1] show ?thesis
    using one_output_segment_per_survivor [where originalSegments = squareCW and d = 1
        and tol = "1 / 100"
        and finalInsets = "[segment 1 1 1 9, segment 1 9 9 9, segment 9 9 9 1, segment 9 1 1 1]"]
    by simp
qed

end
